theory Spec2Isabelle
  imports Main "HOL-Library.Char_ord" "HOL-Library.List_Lexorder"
begin

section \<open>Text primitives of the host language\<close>

text \<open>
  A Python \<open>str\<close> is modelled as a \<open>string\<close> whose characters are the code points
  below 256. The predicates below are the restrictions of \<open>str.isspace\<close>,
  \<open>str.isdecimal\<close> and \<open>str.isdigit\<close> to that range: \<open>isdigit\<close> also accepts the
  superscript digits (code points 178, 179 and 185), which \<open>int()\<close> rejects.
\<close>

definition is_space :: "char \<Rightarrow> bool" where
  "is_space c = (let n = (of_char c :: nat)
     in (9 \<le> n \<and> n \<le> 13) \<or> (28 \<le> n \<and> n \<le> 32) \<or> n = 133 \<or> n = 160)"

definition is_decimal :: "char \<Rightarrow> bool" where
  "is_decimal c = (let n = (of_char c :: nat) in 48 \<le> n \<and> n \<le> 57)"

definition is_digit_char :: "char \<Rightarrow> bool" where
  "is_digit_char c = (let n = (of_char c :: nat)
     in (48 \<le> n \<and> n \<le> 57) \<or> n = 178 \<or> n = 179 \<or> n = 185)"

text \<open>\<open>s.strip()\<close>: leading and trailing whitespace removed.\<close>

definition strip :: "string \<Rightarrow> string" where
  "strip s = rev (dropWhile is_space (rev (dropWhile is_space s)))"

text \<open>\<open>s.isdigit()\<close>: at least one character, all of them digits.\<close>

definition isdigit :: "string \<Rightarrow> bool" where
  "isdigit s = (s \<noteq> [] \<and> list_all is_digit_char s)"

text \<open>\<open>s.lower()\<close>, on the letters A to Z (enough to compare with an ASCII literal).\<close>

definition lower_char :: "char \<Rightarrow> char" where
  "lower_char c = (let n = (of_char c :: nat)
     in if 65 \<le> n \<and> n \<le> 90 then char_of (n + 32) else c)"

definition lower :: "string \<Rightarrow> string" where
  "lower s = map lower_char s"

subsection \<open>Integers and text\<close>

definition digit_char :: "nat \<Rightarrow> char" where
  "digit_char d = char_of (48 + d)"

definition digit_val :: "char \<Rightarrow> nat" where
  "digit_val c = of_char c - 48"

fun str_nat :: "nat \<Rightarrow> string" where
  "str_nat n = (if n < 10 then [digit_char n] else str_nat (n div 10) @ [digit_char (n mod 10)])"

declare str_nat.simps [simp del]

text \<open>\<open>str(i)\<close> for an integer.\<close>

definition str_int :: "int \<Rightarrow> string" where
  "str_int i = (if i < 0 then CHR ''-'' # str_nat (nat (- i)) else str_nat (nat i))"

text \<open>\<open>str(x)\<close> for a value that is an integer or \<open>None\<close>.\<close>

definition str_opt_int :: "int option \<Rightarrow> string" where
  "str_opt_int x = (case x of None \<Rightarrow> ''None'' | Some i \<Rightarrow> str_int i)"

definition nat_of_digits :: "string \<Rightarrow> nat" where
  "nat_of_digits ds = foldl (\<lambda>a c. 10 * a + digit_val c) 0 ds"

text \<open>
  The digit part of an integer literal: decimal digits, where single underscores may
  stand between two digits.
\<close>

fun digit_groups :: "string \<Rightarrow> bool" where
  "digit_groups [] = False"
| "digit_groups [c] = is_decimal c"
| "digit_groups (c # d # r) =
     (is_decimal c \<and> (if d = CHR ''_'' then digit_groups r else digit_groups (d # r)))"

text \<open>
  The whitespace \<open>int()\<close> skips around a literal: unlike \<open>str.strip()\<close>, it does
  not skip the separator characters 28 to 31.
\<close>

definition is_int_space :: "char \<Rightarrow> bool" where
  "is_int_space c = (let n = (of_char c :: nat)
     in (9 \<le> n \<and> n \<le> 13) \<or> n = 32 \<or> n = 133 \<or> n = 160)"

definition int_strip :: "string \<Rightarrow> string" where
  "int_strip s = rev (dropWhile is_int_space (rev (dropWhile is_int_space s)))"

text \<open>
  \<open>int(s)\<close> in base 10: surrounding whitespace, an optional sign, then the digits.
  \<open>None\<close> stands for the \<open>ValueError\<close> of the source language.
\<close>

definition py_int :: "string \<Rightarrow> int option" where
  "py_int s =
     (let t = int_strip s;
          neg = (t \<noteq> [] \<and> hd t = CHR ''-'');
          ds = (if t \<noteq> [] \<and> (hd t = CHR ''-'' \<or> hd t = CHR ''+'') then tl t else t)
      in if digit_groups ds
         then Some ((if neg then - 1 else 1) * int (nat_of_digits (filter (\<lambda>c. c \<noteq> CHR ''_'') ds)))
         else None)"

subsection \<open>Parsing a due date\<close>

text \<open>
  \<open>datetime.strptime(text, "%Y-%m-%d %H:%M")\<close>. The library matches the text against
  a pattern of a four-digit year, a month (1 to 12, one or two digits), a day (1 to 31,
  one or two digits, or a space and one digit), at least one whitespace character, an
  hour (0 to 23) and a minute (0 to 59), separated by the literal characters of the
  format; the whole text must be consumed and the date must exist in the calendar.
\<close>

definition in_range :: "char \<Rightarrow> nat \<Rightarrow> nat \<Rightarrow> bool" where
  "in_range c lo hi = (is_decimal c \<and> lo \<le> digit_val c \<and> digit_val c \<le> hi)"

fun month_field :: "string \<Rightarrow> bool" where
  "month_field [a] = in_range a 1 9"
| "month_field [a, b] = ((a = CHR ''1'' \<and> in_range b 0 2) \<or> (a = CHR ''0'' \<and> in_range b 1 9))"
| "month_field _ = False"

fun day_field :: "string \<Rightarrow> bool" where
  "day_field [a] = in_range a 1 9"
| "day_field [a, b] = ((a = CHR ''3'' \<and> in_range b 0 1) \<or> (in_range a 1 2 \<and> is_decimal b)
     \<or> (a = CHR ''0'' \<and> in_range b 1 9))"
| "day_field _ = False"

fun hour_field :: "string \<Rightarrow> bool" where
  "hour_field [a] = is_decimal a"
| "hour_field [a, b] = ((a = CHR ''2'' \<and> in_range b 0 3) \<or> (in_range a 0 1 \<and> is_decimal b))"
| "hour_field _ = False"

fun minute_field :: "string \<Rightarrow> bool" where
  "minute_field [a] = is_decimal a"
| "minute_field [a, b] = (in_range a 0 5 \<and> is_decimal b)"
| "minute_field _ = False"

definition leap_year :: "nat \<Rightarrow> bool" where
  "leap_year y = (y mod 4 = 0 \<and> (y mod 100 \<noteq> 0 \<or> y mod 400 = 0))"

definition days_in_month :: "nat \<Rightarrow> nat \<Rightarrow> nat" where
  "days_in_month y m =
     (if m = 2 then (if leap_year y then 29 else 28)
      else if m = 4 \<or> m = 6 \<or> m = 9 \<or> m = 11 then 30 else 31)"

record datetime =
  dt_year :: nat
  dt_month :: nat
  dt_day :: nat
  dt_hour :: nat
  dt_minute :: nat

text \<open>The day and what follows it: the day's digits, or a space and one digit.\<close>

definition split_day :: "string \<Rightarrow> string \<times> string" where
  "split_day r =
     (case r of
        c # d # rest \<Rightarrow>
          if c = CHR '' '' \<and> in_range d 1 9 then ([d], rest)
          else (takeWhile is_decimal r, dropWhile is_decimal r)
      | _ \<Rightarrow> (takeWhile is_decimal r, dropWhile is_decimal r))"

definition strptime :: "string \<Rightarrow> datetime option" where
  "strptime s =
     (let y = take 4 s; r1 = drop 4 s in
      if \<not> (length y = 4 \<and> list_all is_decimal y \<and> r1 \<noteq> [] \<and> hd r1 = CHR ''-'') then None
      else
        let r2 = tl r1; mo = takeWhile is_decimal r2; r3 = dropWhile is_decimal r2 in
        if \<not> (month_field mo \<and> r3 \<noteq> [] \<and> hd r3 = CHR ''-'') then None
        else
          let (d, r5) = split_day (tl r3);
              ws = takeWhile is_space r5; r6 = dropWhile is_space r5;
              h = takeWhile is_decimal r6; r7 = dropWhile is_decimal r6
          in
          if \<not> (day_field d \<and> ws \<noteq> [] \<and> hour_field h \<and> r7 \<noteq> [] \<and> hd r7 = CHR '':''
                 \<and> minute_field (tl r7)) then None
          else
            let dt = \<lparr>dt_year = nat_of_digits y, dt_month = nat_of_digits mo,
                       dt_day = nat_of_digits d, dt_hour = nat_of_digits h,
                       dt_minute = nat_of_digits (tl r7)\<rparr>
            in if 1 \<le> dt_year dt \<and> dt_day dt \<le> days_in_month (dt_year dt) (dt_month dt)
               then Some dt else None)"

definition pad2 :: "nat \<Rightarrow> string" where
  "pad2 n = (if n < 10 then CHR ''0'' # str_nat n else str_nat n)"

definition pad4 :: "nat \<Rightarrow> string" where
  "pad4 n = replicate (4 - length (str_nat n)) CHR ''0'' @ str_nat n"

text \<open>\<open>dt.isoformat()\<close> of a date and time without seconds.\<close>

definition isoformat :: "datetime \<Rightarrow> string" where
  "isoformat dt = pad4 (dt_year dt) @ ''-'' @ pad2 (dt_month dt) @ ''-'' @ pad2 (dt_day dt)
     @ ''T'' @ pad2 (dt_hour dt) @ '':'' @ pad2 (dt_minute dt) @ '':00''"

section \<open>Role policy\<close>

text \<open>
  \<open>ROLE_ASSIGNMENT_MAP\<close>: the role of the requester mapped to the roles it may assign
  tasks to, in the order of the source's dictionary literal.
\<close>

definition ROLE_ASSIGNMENT_MAP :: "(string \<times> string list) list" where
  "ROLE_ASSIGNMENT_MAP =
     [(''project_head'', [''team_leader'']),
      (''team_leader'', [''region_manager'']),
      (''region_manager'', [''junior_manager'']),
      (''junior_manager'', [])]"

text \<open>
  \<open>ROLE_ASSIGNMENT_MAP.get(assigner_role, [])\<close>, where the role read from a profile
  is a text or \<open>None\<close>.
\<close>

definition allowed_roles :: "string option \<Rightarrow> string list" where
  "allowed_roles role =
     (case role of
        None \<Rightarrow> []
      | Some r \<Rightarrow> (case map_of ROLE_ASSIGNMENT_MAP r of None \<Rightarrow> [] | Some rs \<Rightarrow> rs))"

section \<open>Data model\<close>

text \<open>
  The dialog positions: the states of \<open>LeadForm\<close>, \<open>TaskForm\<close> and
  \<open>TaskResultForm\<close>. The position of a conversation is one of them or \<open>None\<close>.
\<close>

datatype dialog =
    LeadName | LeadPhone | LeadEmail
  | TaskTitle | TaskClient | TaskDueDate | TaskDescription | TaskAssignee
  | AwaitingResult

definition LeadForm :: "dialog list" where
  "LeadForm = [LeadName, LeadPhone, LeadEmail]"

definition TaskForm :: "dialog list" where
  "TaskForm = [TaskTitle, TaskClient, TaskDueDate, TaskDescription, TaskAssignee]"

text \<open>
  The scratch dictionary of a conversation: a key is absent, or bound to a text or to
  \<open>None\<close>.
\<close>

type_synonym scratch = "string \<rightharpoonup> string option"

text \<open>\<open>data.get(k)\<close>: an absent key reads as \<open>None\<close>.\<close>

definition dict_get :: "scratch \<Rightarrow> string \<Rightarrow> string option" where
  "dict_get d k = (case d k of None \<Rightarrow> None | Some v \<Rightarrow> v)"

text \<open>
  Rows as the store returns them; every selected column may hold a null. One row type
  serves all queries of a table, whatever columns they select.
\<close>

record profile_row =
  pr_full_name :: "string option"
  pr_telegram_id :: "int option"
  pr_role :: "string option"

record task_row =
  row_id :: int
  row_title :: "string option"
  row_due_date :: "string option"
  row_status :: "string option"
  row_assignee :: "int option"

record lead_row =
  lr_name :: "string option"
  lr_phone :: "string option"
  lr_email :: "string option"

record sender =
  telegram_id :: int
  username :: "string option"
  first_name :: "string option"
  last_name :: "string option"

text \<open>
  The two status texts the program writes (both are fixed texts in Russian: "in
  progress" and "result pending review").
\<close>

datatype task_status = InProgress | ResultPendingReview

record new_task =
  nt_title :: "string option"
  nt_client :: "string option"
  nt_due_date :: "string option"
  nt_description :: "string option"
  nt_status :: task_status
  nt_assigner :: int
  nt_assignee :: int

text \<open>
  The result payload of a task: the text as sent, or the fixed bracketed text that embeds
  a file reference.
\<close>

datatype result_payload = ResultText string | ResultFile string

text \<open>Every request the program sends to the store, reads and writes alike.\<close>

datatype store_call =
    SelectUsers int
  | InsertUser sender
  | InsertLead int "string option" "string option" "string option"
  | SelectLeads int
  | SelectProfile int
  | SelectProfilesByRoles "string list"
  | SelectProfilesIlike string
  | InsertTask new_task
  | SelectTasksByAssigner int
  | SelectTasksByAssignee int
  | SelectTask string
  | UpdateTaskResult string result_payload task_status string
  | InsertTaskFile string string

text \<open>A request raises, or returns its data.\<close>

datatype 'a reply = Raises | Returns 'a

text \<open>
  The surroundings of one event: what the store answers to each read (the data of a
  list query may be \<open>None\<close>; the single-profile query also carries its error flag),
  which writes raise, the clock and the bot's own user name.
\<close>

record env =
  select_users :: "int \<Rightarrow> int list option reply"
  select_leads :: "int \<Rightarrow> lead_row list option reply"
  select_profile :: "int \<Rightarrow> (bool \<times> profile_row option) reply"
  select_profiles_by_roles :: "string list \<Rightarrow> profile_row list option reply"
  select_profiles_ilike :: "string \<Rightarrow> profile_row list option reply"
  select_tasks_by_assigner :: "int \<Rightarrow> task_row list option reply"
  select_tasks_by_assignee :: "int \<Rightarrow> task_row list option reply"
  select_task :: "string \<Rightarrow> task_row option reply"
  write_raises :: "store_call \<Rightarrow> bool"
  utcnow :: string
  bot_username :: string

text \<open>
  Outbound chat actions. The fixed texts and captions of the program are in Russian;
  they are named here by what they say; a task list or lead list message carries its
  rows instead of the rendered lines, and a truncated caption carries the kept prefix.
  Sending a chat action is taken to succeed: failures of the chat transport are not
  part of the model.
\<close>

datatype caption =
    CapMyTasks | CapNewTask | CapAddTask | CapMainMenu | CapAssignSelf | CapCancel
  | CapToTaskList
  | CapText string
  | CapTruncated string

record button =
  btn_caption :: caption
  callback_data :: string

datatype markup = NoMarkup | Inline "button list" | ReplyKeyboardRemove

datatype notice =
    Welcome | HelpText
  | AskLeadName | AskLeadPhone | AskLeadEmail | LeadAdded
  | NoLeads | LeadsList "lead_row list"
  | AskTaskTitle | AskTaskClient | AskTaskDue | BadDueFormat | AskTaskDescription
  | ChooseAssignee | TaskAdded | AssigneeUnresolved
  | TasksFetchError | TasksList "task_row list" | NoTasks
  | Cancelled
  | UnknownTask | SendTextOrFile | ResultAttached
  | MainMenuText | TaskNotFound | TaskChosen "string option"

datatype outbound =
    Reply notice markup
  | SendMessage notice markup
  | AnswerCallback
  | EditReplyMarkupNone

text \<open>
  The state of one conversation and what it has done so far: the dialog position and the
  scratch dictionary of the state storage, the chat actions emitted and the store
  requests issued, both in order.
\<close>

record world =
  fsm_state :: "dialog option"
  fsm_data :: scratch
  outbox :: "outbound list"
  store_log :: "store_call list"

datatype error = StoreError | ValueError | KeyError | IndexError

text \<open>
  What an event comes to: a handler ran to its end, a handler raised (leaving the world
  as it was at that point), or no handler took the event.
\<close>

datatype outcome = Handled world | Raised error world | Unhandled world

fun final :: "outcome \<Rightarrow> world" where
  "final (Handled w) = w"
| "final (Raised e w) = w"
| "final (Unhandled w) = w"

datatype content = Text string | Document string | Photo "string list" | OtherContent

datatype event = Message sender content | Callback sender string

section \<open>State storage\<close>

text \<open>
  The operations of the state storage the handlers use: \<open>State.set()\<close> changes the
  position only; \<open>state.finish()\<close> resets the position and empties the dictionary;
  \<open>Group.next()\<close> moves to the state after the current one in the group (to the first
  one when the current state is not of the group, to \<open>None\<close> after the last).
\<close>

definition set_state :: "dialog \<Rightarrow> world \<Rightarrow> world" where
  "set_state d w = w\<lparr>fsm_state := Some d\<rparr>"

definition finish :: "world \<Rightarrow> world" where
  "finish w = w\<lparr>fsm_state := None, fsm_data := Map.empty\<rparr>"

fun state_after :: "dialog list \<Rightarrow> dialog \<Rightarrow> dialog option option" where
  "state_after [] d = None"
| "state_after [x] d = (if x = d then Some None else None)"
| "state_after (x # y # r) d = (if x = d then Some (Some y) else state_after (y # r) d)"

definition group_next :: "dialog list \<Rightarrow> world \<Rightarrow> world" where
  "group_next g w =
     w\<lparr>fsm_state :=
        (case fsm_state w of
           None \<Rightarrow> (case g of [] \<Rightarrow> None | x # _ \<Rightarrow> Some x)
         | Some d \<Rightarrow> (case state_after g d of
                        None \<Rightarrow> (case g of [] \<Rightarrow> None | x # _ \<Rightarrow> Some x)
                      | Some n \<Rightarrow> n))\<rparr>"

definition put :: "string \<Rightarrow> string option \<Rightarrow> world \<Rightarrow> world" where
  "put k v w = w\<lparr>fsm_data := (fsm_data w)(k \<mapsto> v)\<rparr>"

definition emit :: "outbound \<Rightarrow> world \<Rightarrow> world" where
  "emit a w = w\<lparr>outbox := outbox w @ [a]\<rparr>"

definition request :: "store_call \<Rightarrow> world \<Rightarrow> world" where
  "request c w = w\<lparr>store_log := store_log w @ [c]\<rparr>"

text \<open>\<open>resp.data or []\<close>.\<close>

definition data_or_empty :: "'a list option \<Rightarrow> 'a list" where
  "data_or_empty d = (case d of None \<Rightarrow> [] | Some rows \<Rightarrow> rows)"

section \<open>Keyboards\<close>

definition get_main_menu :: markup where
  "get_main_menu =
     Inline [\<lparr>btn_caption = CapMyTasks, callback_data = ''mytasks''\<rparr>,
             \<lparr>btn_caption = CapNewTask, callback_data = ''newtask''\<rparr>]"

text \<open>\<open>x or d\<close> for a text that may be \<open>None\<close>: the empty text counts as absent.\<close>

definition str_or :: "string option \<Rightarrow> string \<Rightarrow> string" where
  "str_or x d = (case x of None \<Rightarrow> d | Some v \<Rightarrow> if v = [] then d else v)"

definition task_button :: "task_row \<Rightarrow> button" where
  "task_button t =
     (let title = str_or (row_title t) []
      in \<lparr>btn_caption = (if length title \<le> 30 then CapText title
                           else CapTruncated (take 27 title)),
          callback_data = ''task:'' @ str_int (row_id t)\<rparr>)"

definition build_tasks_keyboard :: "task_row list \<Rightarrow> markup" where
  "build_tasks_keyboard tasks =
     Inline ([\<lparr>btn_caption = CapAddTask, callback_data = ''newtask''\<rparr>]
             @ map task_button tasks
             @ [\<lparr>btn_caption = CapMainMenu, callback_data = ''menu''\<rparr>])"

section \<open>Assignee resolver\<close>

text \<open>
  The loop of \<open>prompt_for_assignee\<close> over the fetched profiles: a row of the requester
  is skipped; any other row gives a button labelled by its name, else its role, else
  its identity as text.
\<close>

fun assignee_buttons :: "int \<Rightarrow> profile_row list \<Rightarrow> button list" where
  "assignee_buttons assigner_id [] = []"
| "assignee_buttons assigner_id (a # rest) =
     (if pr_telegram_id a = Some assigner_id then assignee_buttons assigner_id rest
      else \<lparr>btn_caption =
               CapText (str_or (pr_full_name a)
                          (str_or (pr_role a) (str_opt_int (pr_telegram_id a)))),
            callback_data = ''assign:'' @ str_opt_int (pr_telegram_id a)\<rparr>
           # assignee_buttons assigner_id rest)"

text \<open>The role of the requester: any failure of the lookup gives \<open>None\<close>.\<close>

definition assigner_role :: "env \<Rightarrow> int \<Rightarrow> string option" where
  "assigner_role env assigner_id =
     (case select_profile env assigner_id of
        Raises \<Rightarrow> None
      | Returns (err, d) \<Rightarrow>
          (case (if \<not> err then d else None) of None \<Rightarrow> None | Some prof \<Rightarrow> pr_role prof))"

text \<open>The candidates: fetched only for a non-empty role list; a failure gives none.\<close>

definition fetch_assignees :: "env \<Rightarrow> string list \<Rightarrow> profile_row list" where
  "fetch_assignees env roles =
     (if roles \<noteq> [] then
        (case select_profiles_by_roles env roles of
           Raises \<Rightarrow> []
         | Returns d \<Rightarrow> data_or_empty d)
      else [])"

definition assignee_keyboard :: "env \<Rightarrow> int \<Rightarrow> button list" where
  "assignee_keyboard env assigner_id =
     \<lparr>btn_caption = CapAssignSelf, callback_data = ''assign:self''\<rparr>
     # assignee_buttons assigner_id
         (fetch_assignees env (allowed_roles (assigner_role env assigner_id)))"

definition prompt_for_assignee :: "env \<Rightarrow> sender \<Rightarrow> world \<Rightarrow> world" where
  "prompt_for_assignee env u w =
     (let assigner_id = telegram_id u;
          w1 = request (SelectProfile assigner_id) w;
          roles = allowed_roles (assigner_role env assigner_id);
          w2 = (if roles \<noteq> [] then request (SelectProfilesByRoles roles) w1 else w1)
      in emit (SendMessage ChooseAssignee (Inline (assignee_keyboard env assigner_id))) w2)"

section \<open>Task view builder\<close>

text \<open>The loop that appends each assignee-query record not yet in the list.\<close>

fun append_new :: "'a list \<Rightarrow> 'a list \<Rightarrow> 'a list" where
  "append_new tasks [] = tasks"
| "append_new tasks (t # ts) = append_new (if t \<in> set tasks then tasks else tasks @ [t]) ts"

definition merge_tasks :: "'a list option \<Rightarrow> 'a list option \<Rightarrow> 'a list" where
  "merge_tasks assigner_data assignee_data =
     (let tasks = (case assigner_data of None \<Rightarrow> [] | Some rows \<Rightarrow> rows)
      in case assignee_data of None \<Rightarrow> tasks | Some rows \<Rightarrow> append_new tasks rows)"

text \<open>The sort key \<open>x.get('due_date') or ''\<close>.\<close>

definition due_key :: "task_row \<Rightarrow> string" where
  "due_key t = str_or (row_due_date t) []"

text \<open>
  \<open>tasks.sort(key=...)\<close>: the stable sort of the host language, ascending by key;
  texts compare lexicographically by code point.
\<close>

definition sort_tasks :: "task_row list \<Rightarrow> task_row list" where
  "sort_tasks tasks = sort_key due_key tasks"

definition list_tasks :: "task_row list option \<Rightarrow> task_row list option \<Rightarrow> task_row list" where
  "list_tasks assigner_data assignee_data = sort_tasks (merge_tasks assigner_data assignee_data)"

definition tasks_text :: "task_row list \<Rightarrow> notice" where
  "tasks_text tasks = (if tasks \<noteq> [] then TasksList tasks else NoTasks)"

section \<open>Message handlers\<close>

text \<open>
  Each handler takes the surroundings, the sender and its input, and the world; it
  returns the outcome. A request is logged when it is issued, before it answers.
\<close>

definition send_welcome :: "env \<Rightarrow> sender \<Rightarrow> world \<Rightarrow> outcome" where
  "send_welcome env u w =
     (let w1 = request (SelectUsers (telegram_id u)) w in
      case select_users env (telegram_id u) of
        Raises \<Rightarrow> Raised StoreError w1
      | Returns d \<Rightarrow>
          if data_or_empty d = [] then
            (let w2 = request (InsertUser u) w1 in
             if write_raises env (InsertUser u) then Raised StoreError w2
             else Handled (emit (Reply Welcome get_main_menu) w2))
          else Handled (emit (Reply Welcome get_main_menu) w1))"

definition help_command :: "world \<Rightarrow> outcome" where
  "help_command w = Handled (emit (Reply HelpText NoMarkup) w)"

definition new_lead :: "world \<Rightarrow> outcome" where
  "new_lead w = Handled (emit (Reply AskLeadName get_main_menu) (set_state LeadName w))"

definition process_lead_name :: "string \<Rightarrow> world \<Rightarrow> outcome" where
  "process_lead_name text w =
     Handled (emit (Reply AskLeadPhone get_main_menu)
                (group_next LeadForm (put ''name'' (Some (strip text)) w)))"

definition process_lead_phone :: "string \<Rightarrow> world \<Rightarrow> outcome" where
  "process_lead_phone text w =
     Handled (emit (Reply AskLeadEmail get_main_menu)
                (group_next LeadForm (put ''phone'' (Some (strip text)) w)))"

text \<open>
  The lead is inserted while the scratch dictionary is still open: a missing key or a
  failing insert leaves the stored dictionary and the position as they were.
\<close>

definition process_lead_email :: "env \<Rightarrow> sender \<Rightarrow> string \<Rightarrow> world \<Rightarrow> outcome" where
  "process_lead_email env u text w =
     (case fsm_data w ''name'' of
        None \<Rightarrow> Raised KeyError w
      | Some name \<Rightarrow>
          (case fsm_data w ''phone'' of
             None \<Rightarrow> Raised KeyError w
           | Some phone \<Rightarrow>
               (let c = InsertLead (telegram_id u) name phone (Some (strip text));
                    w1 = request c w
                in if write_raises env c then Raised StoreError w1
                   else Handled (emit (Reply LeadAdded get_main_menu)
                                   (finish (put ''email'' (Some (strip text)) w1))))))"

definition my_leads :: "env \<Rightarrow> sender \<Rightarrow> world \<Rightarrow> outcome" where
  "my_leads env u w =
     (let w1 = request (SelectLeads (telegram_id u)) w in
      case select_leads env (telegram_id u) of
        Raises \<Rightarrow> Raised StoreError w1
      | Returns d \<Rightarrow>
          if data_or_empty d = [] then Handled (emit (Reply NoLeads NoMarkup) w1)
          else Handled (emit (Reply (LeadsList (data_or_empty d)) NoMarkup) w1))"

definition new_task :: "world \<Rightarrow> outcome" where
  "new_task w = Handled (emit (Reply AskTaskTitle get_main_menu) (set_state TaskTitle w))"

definition process_task_title :: "string \<Rightarrow> world \<Rightarrow> outcome" where
  "process_task_title text w =
     Handled (emit (Reply AskTaskClient get_main_menu)
                (group_next TaskForm (put ''title'' (Some (strip text)) w)))"

text \<open>\<open>txt if txt and txt != '-' else None\<close>.\<close>

definition optional_text :: "string \<Rightarrow> string option" where
  "optional_text txt = (if txt \<noteq> [] \<and> txt \<noteq> ''-'' then Some txt else None)"

definition process_task_client :: "string \<Rightarrow> world \<Rightarrow> outcome" where
  "process_task_client text w =
     Handled (emit (Reply AskTaskDue get_main_menu)
                (group_next TaskForm (put ''client'' (optional_text (strip text)) w)))"

definition process_task_due_date :: "string \<Rightarrow> world \<Rightarrow> outcome" where
  "process_task_due_date text w =
     (case strptime (strip text) of
        None \<Rightarrow> Handled (emit (Reply BadDueFormat NoMarkup) w)
      | Some dt \<Rightarrow>
          Handled (emit (Reply AskTaskDescription get_main_menu)
                     (group_next TaskForm (put ''due_date'' (Some (isoformat dt)) w))))"

definition process_task_description :: "env \<Rightarrow> sender \<Rightarrow> string \<Rightarrow> world \<Rightarrow> outcome" where
  "process_task_description env u text w =
     Handled (prompt_for_assignee env u
                (group_next TaskForm (put ''description'' (optional_text (strip text)) w)))"

text \<open>The task record written at the end of the dialog, from the scratch dictionary.\<close>

definition task_of :: "scratch \<Rightarrow> int \<Rightarrow> int \<Rightarrow> new_task" where
  "task_of d assigner_id assignee_id =
     \<lparr>nt_title = dict_get d ''title'', nt_client = dict_get d ''client'',
      nt_due_date = dict_get d ''due_date'', nt_description = dict_get d ''description'',
      nt_status = InProgress, nt_assigner = assigner_id, nt_assignee = assignee_id\<rparr>"

text \<open>
  The first half of \<open>process_task_assignee\<close>: the assignee identity, or \<open>None\<close> when
  it could not be determined, with the world after the lookup (if one was made). A
  failing name lookup counts as no candidate.
\<close>

definition name_candidates :: "env \<Rightarrow> string \<Rightarrow> profile_row list" where
  "name_candidates env assignee_input =
     (case select_profiles_ilike env assignee_input of
        Raises \<Rightarrow> []
      | Returns d \<Rightarrow> data_or_empty d)"

definition resolve_assignee :: "env \<Rightarrow> int \<Rightarrow> string \<Rightarrow> world \<Rightarrow> error + (int option \<times> world)" where
  "resolve_assignee env assigner_id assignee_input w =
     (if isdigit assignee_input \<or> assignee_input = ''0'' then
        (if assignee_input \<noteq> [] \<and> assignee_input \<noteq> ''0'' \<and> assignee_input \<noteq> ''-'' then
           (case py_int assignee_input of
              None \<Rightarrow> Inl ValueError
            | Some i \<Rightarrow> Inr (Some i, w))
         else Inr (Some assigner_id, w))
      else
        (let w1 = request (SelectProfilesIlike assignee_input) w;
             candidates = name_candidates env assignee_input
         in if length candidates = 1 then Inr (pr_telegram_id (hd candidates), w1)
            else Inr (None, w1)))"

definition process_task_assignee :: "env \<Rightarrow> sender \<Rightarrow> string \<Rightarrow> world \<Rightarrow> outcome" where
  "process_task_assignee env u text w =
     (case resolve_assignee env (telegram_id u) (strip text) w of
        Inl e \<Rightarrow> Raised e w
      | Inr (assignee_id, w1) \<Rightarrow>
          (case assignee_id of
             Some i \<Rightarrow>
               (let c = InsertTask (task_of (fsm_data w1) (telegram_id u) i);
                    w2 = request c w1
                in if write_raises env c then Raised StoreError w2
                   else Handled (emit (Reply TaskAdded get_main_menu) (finish w2)))
           | None \<Rightarrow> Handled (emit (Reply AssigneeUnresolved get_main_menu) w1)))"

text \<open>
  The two task queries and the merged, sorted list; \<open>None\<close> when a query raises.
\<close>

definition fetch_tasks :: "env \<Rightarrow> int \<Rightarrow> world \<Rightarrow> task_row list option \<times> world" where
  "fetch_tasks env uid w =
     (let w1 = request (SelectTasksByAssigner uid) w in
      case select_tasks_by_assigner env uid of
        Raises \<Rightarrow> (None, w1)
      | Returns a \<Rightarrow>
          (let w2 = request (SelectTasksByAssignee uid) w1 in
           case select_tasks_by_assignee env uid of
             Raises \<Rightarrow> (None, w2)
           | Returns b \<Rightarrow> (Some (list_tasks a b), w2)))"

definition my_tasks :: "env \<Rightarrow> sender \<Rightarrow> world \<Rightarrow> outcome" where
  "my_tasks env u w =
     (case fetch_tasks env (telegram_id u) w of
        (None, w1) \<Rightarrow> Handled (emit (Reply TasksFetchError get_main_menu) w1)
      | (Some tasks, w1) \<Rightarrow>
          Handled (emit (Reply (tasks_text tasks) (build_tasks_keyboard tasks)) w1))"

definition cancel_handler :: "world \<Rightarrow> outcome" where
  "cancel_handler w =
     (case fsm_state w of
        None \<Rightarrow> Handled w
      | Some current_state \<Rightarrow> Handled (emit (Reply Cancelled ReplyKeyboardRemove) (finish w)))"

definition result_keyboard :: markup where
  "result_keyboard =
     Inline [\<lparr>btn_caption = CapToTaskList, callback_data = ''mytasks''\<rparr>,
             \<lparr>btn_caption = CapMainMenu, callback_data = ''menu''\<rparr>]"

text \<open>
  The second half of \<open>process_task_result\<close>: the task is updated, a file (if any) is
  recorded, and the dialog ends.
\<close>

definition attach_result :: "env \<Rightarrow> string \<Rightarrow> result_payload \<Rightarrow> string option \<Rightarrow> world \<Rightarrow> outcome" where
  "attach_result env task_id result_text file_id w =
     (let upd = UpdateTaskResult task_id result_text ResultPendingReview (utcnow env);
          w1 = request upd w
      in if write_raises env upd then Raised StoreError w1
         else
           (case file_id of
              Some f \<Rightarrow>
                if f \<noteq> [] then
                  (let ins = InsertTaskFile task_id f; w2 = request ins w1
                   in if write_raises env ins then Raised StoreError w2
                      else Handled (emit (Reply ResultAttached result_keyboard) (finish w2)))
                else Handled (emit (Reply ResultAttached result_keyboard) (finish w1))
            | None \<Rightarrow> Handled (emit (Reply ResultAttached result_keyboard) (finish w1))))"

definition process_task_result :: "env \<Rightarrow> content \<Rightarrow> world \<Rightarrow> outcome" where
  "process_task_result env c w =
     (let task_id = str_or (dict_get (fsm_data w) ''task_id'') [] in
      if task_id = [] then Handled (emit (Reply UnknownTask NoMarkup) (finish w))
      else
        (case c of
           Text t \<Rightarrow> attach_result env task_id (ResultText (strip t)) None w
         | Document f \<Rightarrow> attach_result env task_id (ResultFile f) (Some f) w
         | Photo sizes \<Rightarrow>
             (if sizes = [] then Raised IndexError w
              else attach_result env task_id (ResultFile (last sizes)) (Some (last sizes)) w)
         | OtherContent \<Rightarrow> Handled (emit (Reply SendTextOrFile NoMarkup) w)))"

section \<open>Button handlers\<close>

text \<open>\<open>data.split(':', 1)[1]\<close> for a text that holds a colon: what follows the first one.\<close>

definition after_colon :: "string \<Rightarrow> string" where
  "after_colon s = drop 1 (dropWhile (\<lambda>c. c \<noteq> CHR '':'') s)"

definition on_menu :: "world \<Rightarrow> outcome" where
  "on_menu w =
     Handled (emit (SendMessage MainMenuText get_main_menu)
                (emit EditReplyMarkupNone (emit AnswerCallback (finish w))))"

definition on_mytasks :: "env \<Rightarrow> sender \<Rightarrow> world \<Rightarrow> outcome" where
  "on_mytasks env u w =
     (case fetch_tasks env (telegram_id u) (emit AnswerCallback (finish w)) of
        (None, w1) \<Rightarrow> Handled (emit (SendMessage TasksFetchError get_main_menu) w1)
      | (Some tasks, w1) \<Rightarrow>
          Handled (emit (SendMessage (tasks_text tasks) (build_tasks_keyboard tasks)) w1))"

definition on_newtask :: "world \<Rightarrow> outcome" where
  "on_newtask w =
     Handled (emit (SendMessage AskTaskTitle NoMarkup)
                (set_state TaskTitle (emit AnswerCallback (finish w))))"

definition on_select_task :: "env \<Rightarrow> string \<Rightarrow> world \<Rightarrow> outcome" where
  "on_select_task env cb w =
     (let w1 = emit AnswerCallback (finish w);
          task_id = after_colon cb;
          w2 = request (SelectTask task_id) w1;
          found = (case select_task env task_id of Raises \<Rightarrow> None | Returns d \<Rightarrow> d)
      in case found of
           None \<Rightarrow> Handled (emit (SendMessage TaskNotFound NoMarkup) w2)
         | Some t \<Rightarrow>
             Handled (emit (SendMessage (TaskChosen (row_title t))
                              (Inline [\<lparr>btn_caption = CapCancel,
                                        callback_data = ''cancel_action''\<rparr>]))
                        (set_state AwaitingResult (put ''task_id'' (Some task_id) w2))))"

text \<open>Here the task queries are not guarded: a failing query raises out of the handler.\<close>

definition on_cancel_action :: "env \<Rightarrow> sender \<Rightarrow> world \<Rightarrow> outcome" where
  "on_cancel_action env u w =
     (case fetch_tasks env (telegram_id u)
             (emit EditReplyMarkupNone (finish (emit AnswerCallback w))) of
        (None, w1) \<Rightarrow> Raised StoreError w1
      | (Some tasks, w1) \<Rightarrow>
          Handled (emit (SendMessage (tasks_text tasks) (build_tasks_keyboard tasks)) w1))"

definition handle_assign_callback :: "env \<Rightarrow> sender \<Rightarrow> string \<Rightarrow> world \<Rightarrow> outcome" where
  "handle_assign_callback env u cb w =
     (let w1 = emit AnswerCallback w;
          assigner_id = telegram_id u;
          assignee_code = after_colon cb;
          assignee_id = (if assignee_code = ''self'' then assigner_id
                         else (case py_int assignee_code of
                                 Some i \<Rightarrow> i
                               | None \<Rightarrow> assigner_id));
          c = InsertTask (task_of (fsm_data w1) assigner_id assignee_id);
          w2 = request c w1
      in if write_raises env c then Raised StoreError w2
         else Handled (emit (SendMessage TaskAdded get_main_menu)
                         (emit EditReplyMarkupNone (finish w2))))"

section \<open>Dispatch\<close>

text \<open>
  The dispatcher offers an event to the handlers in the order of their registration in
  the source and runs the first one whose filters pass. The state filter of a handler
  registered without \<open>state=\<close> passes only when the conversation has no dialog
  position; \<open>state='*'\<close> passes always. Message handlers take text messages only,
  unless registered for any content.
\<close>

definition first_word :: "string \<Rightarrow> string" where
  "first_word s = takeWhile (\<lambda>c. \<not> is_space c) (dropWhile is_space s)"

text \<open>
  The command filter: the first word is the prefix \<open>/\<close>, a command of the list (in any
  letter case) and perhaps a mention, which must name this bot.
\<close>

definition is_command :: "env \<Rightarrow> string list \<Rightarrow> string \<Rightarrow> bool" where
  "is_command env commands text =
     (case first_word text of
        [] \<Rightarrow> False
      | prefix # rest \<Rightarrow>
          (let command = takeWhile (\<lambda>c. c \<noteq> CHR ''@'') rest;
               mention = drop 1 (dropWhile (\<lambda>c. c \<noteq> CHR ''@'') rest)
           in \<not> (mention \<noteq> [] \<and> lower (bot_username env) \<noteq> lower mention)
              \<and> prefix = CHR ''/''
              \<and> lower command \<in> set commands))"

text \<open>A text of whitespace only has no first word: the command filter raises on it.\<close>

definition blank :: "string \<Rightarrow> bool" where
  "blank text = (text \<noteq> [] \<and> strip text = [])"

definition dispatch_text :: "env \<Rightarrow> sender \<Rightarrow> string \<Rightarrow> world \<Rightarrow> outcome" where
  "dispatch_text env u text w =
     (let s = fsm_state w in
      if s = None \<and> blank text then Raised IndexError w
      else if s = None \<and> is_command env [''start''] text then send_welcome env u w
      else if s = None \<and> is_command env [''help''] text then help_command w
      else if s = None \<and> is_command env [''newlead''] text then new_lead w
      else if s = Some LeadName then process_lead_name text w
      else if s = Some LeadPhone then process_lead_phone text w
      else if s = Some LeadEmail then process_lead_email env u text w
      else if s = None \<and> is_command env [''myleads''] text then my_leads env u w
      else if s = None \<and> is_command env [''newtask''] text then new_task w
      else if s = Some TaskTitle then process_task_title text w
      else if s = Some TaskClient then process_task_client text w
      else if s = Some TaskDueDate then process_task_due_date text w
      else if s = Some TaskDescription then process_task_description env u text w
      else if s = Some TaskAssignee then process_task_assignee env u text w
      else if s = None \<and> is_command env [''mytasks''] text then my_tasks env u w
      else if lower text = ''cancel'' then cancel_handler w
      else if blank text then Raised IndexError w
      else if is_command env [''cancel''] text then cancel_handler w
      else if s = Some AwaitingResult then process_task_result env (Text text) w
      else Unhandled w)"

definition dispatch_callback :: "env \<Rightarrow> sender \<Rightarrow> string \<Rightarrow> world \<Rightarrow> outcome" where
  "dispatch_callback env u cb w =
     (let s = fsm_state w in
      if s = None \<and> cb = ''menu'' then on_menu w
      else if s = None \<and> cb = ''mytasks'' then on_mytasks env u w
      else if s = None \<and> cb = ''newtask'' then on_newtask w
      else if s = None \<and> take 5 cb = ''task:'' then on_select_task env cb w
      else if cb = ''cancel_action'' then on_cancel_action env u w
      else if s = Some TaskAssignee \<and> take 7 cb = ''assign:'' then handle_assign_callback env u cb w
      else Unhandled w)"

fun dispatch :: "env \<Rightarrow> event \<Rightarrow> world \<Rightarrow> outcome" where
  "dispatch env (Message u (Text text)) w = dispatch_text env u text w"
| "dispatch env (Message u c) w =
     (if fsm_state w = Some AwaitingResult then process_task_result env c w else Unhandled w)"
| "dispatch env (Callback u cb) w = dispatch_callback env u cb w"

text \<open>A conversation starts with no dialog position and an empty scratch dictionary.\<close>

definition initial_world :: world where
  "initial_world = \<lparr>fsm_state = None, fsm_data = Map.empty, outbox = [], store_log = []\<rparr>"


section \<open>Reference notions and sample data\<close>





text \<open>
  A sender, a store that holds nothing and accepts every write, and a conversation at a
  given dialog position with a given scratch dictionary, for evaluating the handlers.
\<close>

definition alice :: sender where
  "alice = \<lparr>telegram_id = 7, username = Some ''alice'', first_name = Some ''Alice'',
     last_name = None\<rparr>"

definition empty_store :: env where
  "empty_store =
     \<lparr>select_users = (\<lambda>_. Returns (Some [])),
      select_leads = (\<lambda>_. Returns (Some [])),
      select_profile = (\<lambda>_. Returns (False, None)),
      select_profiles_by_roles = (\<lambda>_. Returns (Some [])),
      select_profiles_ilike = (\<lambda>_. Returns (Some [])),
      select_tasks_by_assigner = (\<lambda>_. Returns (Some [])),
      select_tasks_by_assignee = (\<lambda>_. Returns (Some [])),
      select_task = (\<lambda>_. Returns None),
      write_raises = (\<lambda>_. False),
      utcnow = ''2025-01-01T00:00:00'',
      bot_username = ''crm_bot''\<rparr>"

definition in_dialog :: "dialog \<Rightarrow> scratch \<Rightarrow> world" where
  "in_dialog d sc = \<lparr>fsm_state = Some d, fsm_data = sc, outbox = [], store_log = []\<rparr>"

text \<open>
  Two profiles (one with an identity, one without) and a store that answers the
  single-profile query with a given profile and both profile list queries with a given
  list.
\<close>

definition ivan :: profile_row where
  "ivan = \<lparr>pr_full_name = Some ''Ivan Petrov'', pr_telegram_id = Some 9,
     pr_role = Some ''team_leader''\<rparr>"


definition store_with :: "profile_row option \<Rightarrow> profile_row list \<Rightarrow> env" where
  "store_with me ps =
     empty_store\<lparr>select_profile := (\<lambda>_. Returns (False, me)),
                 select_profiles_by_roles := (\<lambda>_. Returns (Some ps)),
                 select_profiles_ilike := (\<lambda>_. Returns (Some ps))\<rparr>"

text \<open>
  The profile of the sample sender, a project head, and a store whose profile queries
  all raise.
\<close>

definition alice_profile :: profile_row where
  "alice_profile = \<lparr>pr_full_name = Some ''Alice'', pr_telegram_id = Some 7,
     pr_role = Some ''project_head''\<rparr>"

definition failing_store :: env where
  "failing_store = empty_store\<lparr>select_profile := (\<lambda>_. Raises),
     select_profiles_by_roles := (\<lambda>_. Raises), select_profiles_ilike := (\<lambda>_. Raises)\<rparr>"

text \<open>
  The keys the scratch dictionary is expected to hold at each dialog position: the fields
  of the steps of the current dialog that are already done.
\<close>

fun fields_at :: "dialog option \<Rightarrow> string set" where
  "fields_at None = {}"
| "fields_at (Some LeadName) = {}"
| "fields_at (Some LeadPhone) = {''name''}"
| "fields_at (Some LeadEmail) = {''name'', ''phone''}"
| "fields_at (Some TaskTitle) = {}"
| "fields_at (Some TaskClient) = {''title''}"
| "fields_at (Some TaskDueDate) = {''title'', ''client''}"
| "fields_at (Some TaskDescription) = {''title'', ''client'', ''due_date''}"
| "fields_at (Some TaskAssignee) = {''title'', ''client'', ''due_date'', ''description''}"
| "fields_at (Some AwaitingResult) = {''task_id''}"

definition scratch_fits :: "world \<Rightarrow> bool" where
  "scratch_fits w = (dom (fsm_data w) = fields_at (fsm_state w))"




section \<open>Properties\<close>

text \<open>
  C6. The eligible roles are exactly the fixed table: a project head may assign to team
  leaders, a team leader to region managers, a region manager to junior managers, a
  junior manager to nobody, and an absent role or any role outside the table to nobody.
\<close>

theorem allowed_roles_table:
  "set (allowed_roles (Some ''project_head'')) = {''team_leader''}
   \<and> set (allowed_roles (Some ''team_leader'')) = {''region_manager''}
   \<and> set (allowed_roles (Some ''region_manager'')) = {''junior_manager''}
   \<and> set (allowed_roles (Some ''junior_manager'')) = {}
   \<and> set (allowed_roles None) = {}
   \<and> (\<forall>r. r \<notin> {''project_head'', ''team_leader'', ''region_manager'', ''junior_manager''}
          \<longrightarrow> set (allowed_roles (Some r)) = {})"
  by (simp add: allowed_roles_def ROLE_ASSIGNMENT_MAP_def)

theorem allowed_roles_table_witness:
  "''intern'' \<notin> {''project_head'', ''team_leader'', ''region_manager'', ''junior_manager''}
   \<and> set (allowed_roles (Some ''intern'')) = {}
   \<and> set (allowed_roles (Some ''team_leader'')) = {''region_manager''}"
  using allowed_roles_table by simp

subsection \<open>Merging the two task queries\<close>











subsection \<open>Sorting the task list\<close>



subsection \<open>The steps of task creation\<close>

text \<open>
  C3. At the due-date step, a text whose trimmed form does not parse gets the
  format-error reply and nothing else changes: the position, the scratch dictionary
  (with the title and the client of the earlier steps) and the list of store requests
  stay as they were. A text that parses moves the dialog to the description step, with
  the due date stored and still no store request.
\<close>

theorem due_date_step:
  assumes "fsm_state w = Some TaskDueDate"
  shows "(strptime (strip text) = None \<longrightarrow>
            dispatch env (Message u (Text text)) w
              = Handled (w\<lparr>outbox := outbox w @ [Reply BadDueFormat NoMarkup]\<rparr>))
       \<and> (\<forall>dt. strptime (strip text) = Some dt \<longrightarrow>
            dispatch env (Message u (Text text)) w
              = Handled (w\<lparr>fsm_state := Some TaskDescription,
                           fsm_data := (fsm_data w)(''due_date'' \<mapsto> Some (isoformat dt)),
                           outbox := outbox w @ [Reply AskTaskDescription get_main_menu]\<rparr>))"
  using assms
  by (simp add: dispatch_text_def process_task_due_date_def emit_def put_def group_next_def
      TaskForm_def)

theorem due_date_step_witness:
  "fsm_state (in_dialog TaskDueDate [''title'' \<mapsto> Some ''Fix bug'', ''client'' \<mapsto> None])
     = Some TaskDueDate
   \<and> strptime (strip ''31-12-2025'') = None
   \<and> dispatch empty_store (Message alice (Text ''31-12-2025''))
        (in_dialog TaskDueDate [''title'' \<mapsto> Some ''Fix bug'', ''client'' \<mapsto> None])
      = Handled \<lparr>fsm_state = Some TaskDueDate,
          fsm_data = [''title'' \<mapsto> Some ''Fix bug'', ''client'' \<mapsto> None],
          outbox = [Reply BadDueFormat NoMarkup], store_log = []\<rparr>
   \<and> map_option isoformat (strptime (strip ''2025-12-31 18:00'')) = Some ''2025-12-31T18:00:00''
   \<and> (\<exists>w'. dispatch empty_store (Message alice (Text ''2025-12-31 18:00''))
               (in_dialog TaskDueDate [''title'' \<mapsto> Some ''Fix bug'', ''client'' \<mapsto> None])
             = Handled w'
           \<and> fsm_state w' = Some TaskDescription
           \<and> fsm_data w' ''title'' = Some (Some ''Fix bug'')
           \<and> fsm_data w' ''due_date'' = Some (Some ''2025-12-31T18:00:00'')
           \<and> store_log w' = [])"
proof -
  let ?w = "in_dialog TaskDueDate [''title'' \<mapsto> Some ''Fix bug'', ''client'' \<mapsto> None]"
  have s: "fsm_state ?w = Some TaskDueDate"
    by (simp add: in_dialog_def)
  have bad: "strptime (strip ''31-12-2025'') = None"
    by code_simp
  have good: "map_option isoformat (strptime (strip ''2025-12-31 18:00'')) = Some ''2025-12-31T18:00:00''"
    by code_simp
  then obtain dt where dt: "strptime (strip ''2025-12-31 18:00'') = Some dt"
    and iso: "isoformat dt = ''2025-12-31T18:00:00''"
    by (cases "strptime (strip ''2025-12-31 18:00'')") auto
  have "dispatch empty_store (Message alice (Text ''31-12-2025'')) ?w
          = Handled (?w\<lparr>outbox := outbox ?w @ [Reply BadDueFormat NoMarkup]\<rparr>)"
    using due_date_step [OF s, of "''31-12-2025''" empty_store alice] bad by blast
  then have r1: "dispatch empty_store (Message alice (Text ''31-12-2025'')) ?w
      = Handled \<lparr>fsm_state = Some TaskDueDate,
          fsm_data = [''title'' \<mapsto> Some ''Fix bug'', ''client'' \<mapsto> None],
          outbox = [Reply BadDueFormat NoMarkup], store_log = []\<rparr>"
    by (simp add: in_dialog_def)
  have "dispatch empty_store (Message alice (Text ''2025-12-31 18:00'')) ?w
          = Handled (?w\<lparr>fsm_state := Some TaskDescription,
                       fsm_data := (fsm_data ?w)(''due_date'' \<mapsto> Some (isoformat dt)),
                       outbox := outbox ?w @ [Reply AskTaskDescription get_main_menu]\<rparr>)"
    using due_date_step [OF s, of "''2025-12-31 18:00''" empty_store alice] dt by blast
  then have r2: "\<exists>w'. dispatch empty_store (Message alice (Text ''2025-12-31 18:00'')) ?w = Handled w'
           \<and> fsm_state w' = Some TaskDescription
           \<and> fsm_data w' ''title'' = Some (Some ''Fix bug'')
           \<and> fsm_data w' ''due_date'' = Some (Some ''2025-12-31T18:00:00'')
           \<and> store_log w' = []"
    by (simp add: in_dialog_def iso)
  show ?thesis
    by (intro conjI) (fact s bad r1 good r2)+
qed

text \<open>
  C9, as the code has it. The title step makes no check: whatever text arrives, its
  trimmed form is stored as the title and the dialog moves on to the client step, also
  when the trimmed text is empty.
\<close>

theorem title_step_stores_any_text:
  assumes "fsm_state w = Some TaskTitle"
  shows "dispatch env (Message u (Text text)) w
           = Handled (w\<lparr>fsm_state := Some TaskClient,
                        fsm_data := (fsm_data w)(''title'' \<mapsto> Some (strip text)),
                        outbox := outbox w @ [Reply AskTaskClient get_main_menu]\<rparr>)"
  using assms
  by (simp add: dispatch_text_def process_task_title_def emit_def put_def group_next_def
      TaskForm_def)

theorem title_step_stores_any_text_witness:
  "fsm_state (in_dialog TaskTitle Map.empty) = Some TaskTitle
   \<and> dispatch empty_store (Message alice (Text ''Fix bug '')) (in_dialog TaskTitle Map.empty)
       = Handled \<lparr>fsm_state = Some TaskClient, fsm_data = [''title'' \<mapsto> Some ''Fix bug''],
                  outbox = [Reply AskTaskClient get_main_menu], store_log = []\<rparr>"
proof -
  have s: "fsm_state (in_dialog TaskTitle Map.empty) = Some TaskTitle"
    by (simp add: in_dialog_def)
  have t: "strip ''Fix bug '' = ''Fix bug''"
    by code_simp
  have r: "dispatch empty_store (Message alice (Text ''Fix bug '')) (in_dialog TaskTitle Map.empty)
       = Handled \<lparr>fsm_state = Some TaskClient, fsm_data = [''title'' \<mapsto> Some ''Fix bug''],
                  outbox = [Reply AskTaskClient get_main_menu], store_log = []\<rparr>"
    using title_step_stores_any_text [OF s, of empty_store alice "''Fix bug ''"]
    by (simp add: t in_dialog_def)
  show ?thesis
    by (intro conjI) (fact s r)+
qed

text \<open>
  The claim as the specification states it (an empty title does not pass the title step)
  fails: a text of one space is trimmed to the empty text, which is stored as the title,
  and the dialog is at the client step afterwards.
\<close>

theorem empty_title_accepted:
  "strip '' '' = []
   \<and> process_task_title '' '' (in_dialog TaskTitle Map.empty)
       = Handled \<lparr>fsm_state = Some TaskClient, fsm_data = [''title'' \<mapsto> Some []],
                  outbox = [Reply AskTaskClient get_main_menu], store_log = []\<rparr>
   \<and> dispatch empty_store (Message alice (Text '' '')) (in_dialog TaskTitle Map.empty)
       = Handled \<lparr>fsm_state = Some TaskClient, fsm_data = [''title'' \<mapsto> Some []],
                  outbox = [Reply AskTaskClient get_main_menu], store_log = []\<rparr>"
  by (simp add: dispatch_text_def process_task_title_def emit_def put_def group_next_def
      TaskForm_def in_dialog_def strip_def is_space_def)




subsection \<open>The assignee step\<close>













text \<open>
  Outside the cases above: a text of superscript digits passes \<open>isdigit\<close> but is no
  integer literal, so the handler raises instead of resolving or asking again.
\<close>

lemma superscript_digit_raises:
  "isdigit [CHR 0xB2] \<and> py_int [CHR 0xB2] = None
   \<and> process_task_assignee env u [CHR 0xB2] w = Raised ValueError w"
proof -
  have a: "isdigit [CHR 0xB2]" by code_simp
  have b: "py_int [CHR 0xB2] = None" by code_simp
  have c: "strip [CHR 0xB2] = [CHR 0xB2]" by code_simp
  show ?thesis
    using a b by (simp add: process_task_assignee_def resolve_assignee_def c)
qed

subsection \<open>Proposing assignees\<close>

lemma digit_char_decimal: "d < 10 \<Longrightarrow> is_decimal (digit_char d)"
  by (simp add: is_decimal_def digit_char_def Let_def)

lemma digit_val_digit_char: "d < 10 \<Longrightarrow> digit_val (digit_char d) = d"
  by (simp add: digit_val_def digit_char_def)

lemma str_nat_decimal: "list_all is_decimal (str_nat n)"
proof (induction n rule: str_nat.induct)
  case (1 n)
  show ?case
  proof (cases "n < 10")
    case True
    then show ?thesis by (simp add: str_nat.simps [of n] digit_char_decimal)
  next
    case False
    then show ?thesis using 1 by (simp add: str_nat.simps [of n] digit_char_decimal)
  qed
qed

lemma str_nat_nonempty: "str_nat n \<noteq> []"
  by (simp add: str_nat.simps [of n])

lemma nat_of_digits_snoc: "nat_of_digits (ds @ [c]) = 10 * nat_of_digits ds + digit_val c"
  by (simp add: nat_of_digits_def)

lemma nat_of_digits_str_nat: "nat_of_digits (str_nat n) = n"
proof (induction n rule: str_nat.induct)
  case (1 n)
  show ?case
  proof (cases "n < 10")
    case True
    then show ?thesis
      by (simp add: str_nat.simps [of n] nat_of_digits_def digit_val_digit_char)
  next
    case False
    then show ?thesis using 1
      by (simp add: str_nat.simps [of n] nat_of_digits_snoc digit_val_digit_char)
  qed
qed

lemma str_nat_inj: "str_nat m = str_nat n \<Longrightarrow> m = n"
  by (metis nat_of_digits_str_nat)

lemma str_nat_hd: "hd (str_nat n) \<noteq> CHR ''-'' \<and> hd (str_nat n) \<noteq> CHR ''N'' \<and> hd (str_nat n) \<noteq> CHR ''s''"
proof -
  have "is_decimal (hd (str_nat n))"
    using str_nat_decimal [of n] str_nat_nonempty [of n] by (cases "str_nat n") auto
  then show ?thesis by (auto simp: is_decimal_def)
qed

lemma str_int_inj: "str_int i = str_int j \<Longrightarrow> i = j"
proof -
  assume a: "str_int i = str_int j"
  show ?thesis
  proof (cases "i < 0"; cases "j < 0")
    assume "i < 0" "j < 0"
    then have "nat (- i) = nat (- j)" using a by (simp add: str_int_def str_nat_inj)
    then show ?thesis using \<open>i < 0\<close> \<open>j < 0\<close> by simp
  next
    assume "i < 0" "\<not> j < 0"
    then have "hd (str_nat (nat j)) = CHR ''-''" using a by (simp add: str_int_def) (metis list.sel(1))
    then show ?thesis using str_nat_hd by blast
  next
    assume "\<not> i < 0" "j < 0"
    then have "hd (str_nat (nat i)) = CHR ''-''" using a by (simp add: str_int_def)
    then show ?thesis using str_nat_hd by blast
  next
    assume "\<not> i < 0" "\<not> j < 0"
    then have "nat i = nat j" using a by (simp add: str_int_def str_nat_inj)
    then show ?thesis using \<open>\<not> i < 0\<close> \<open>\<not> j < 0\<close> by simp
  qed
qed

lemma str_int_hd: "hd (str_int i) \<noteq> CHR ''N'' \<and> hd (str_int i) \<noteq> CHR ''s''"
  using str_nat_hd by (simp add: str_int_def)

lemma str_opt_int_eq: "str_opt_int x = str_int i \<longleftrightarrow> x = Some i"
proof (cases x)
  case None
  have "hd ''None'' = CHR ''N''" by simp
  then have "''None'' \<noteq> str_int i" using str_int_hd [of i] by metis
  then show ?thesis using None by (simp add: str_opt_int_def)
next
  case (Some j)
  then show ?thesis using str_int_inj by (auto simp: str_opt_int_def)
qed

lemma str_opt_int_not_self: "str_opt_int x \<noteq> ''self''"
proof (cases x)
  case None then show ?thesis by (simp add: str_opt_int_def)
next
  case (Some j)
  have "hd ''self'' = CHR ''s''" by simp
  then have "str_int j \<noteq> ''self''" using str_int_hd [of j] by metis
  then show ?thesis using Some by (simp add: str_opt_int_def)
qed

lemma assignee_buttons_no_self:
  "b \<in> set (assignee_buttons uid rows) \<Longrightarrow>
     callback_data b \<noteq> ''assign:self'' \<and> callback_data b \<noteq> ''assign:'' @ str_int uid"
proof (induction rows)
  case Nil then show ?case by simp
next
  case (Cons a rows)
  show ?case
  proof (cases "pr_telegram_id a = Some uid")
    case True then show ?thesis using Cons by simp
  next
    case False
    then have "str_opt_int (pr_telegram_id a) \<noteq> str_int uid" by (simp add: str_opt_int_eq)
    then show ?thesis using Cons False str_opt_int_not_self [of "pr_telegram_id a"] by auto
  qed
qed

lemma assignee_buttons_filter:
  "assignee_buttons uid rows =
     map (\<lambda>a. \<lparr>btn_caption = CapText (str_or (pr_full_name a) (str_or (pr_role a) (str_opt_int (pr_telegram_id a)))),
               callback_data = ''assign:'' @ str_opt_int (pr_telegram_id a)\<rparr>)
         (filter (\<lambda>a. pr_telegram_id a \<noteq> Some uid) rows)"
  by (induction rows) auto


text \<open>
  C8. Proposing assignees has no failing path: it always sends the prompt with a
  keyboard and leaves the dialog position and the scratch dictionary alone, so the
  description step always ends at the assignee step. The keyboard always starts with the
  button that assigns to the requester; no later button carries the token of the
  requester's own identity (or the self token), because rows of the requester are
  skipped. When the lookup of the requester's profile raises, reports an error or finds
  nothing, or when the candidate query raises, the keyboard is the self button alone.
\<close>

theorem prompt_for_assignee_total:
  fixes u :: sender and env :: env and w :: world
  defines "uid \<equiv> telegram_id u"
  defines "self_button \<equiv> \<lparr>btn_caption = CapAssignSelf, callback_data = ''assign:self''\<rparr>"
  defines "kb \<equiv> assignee_keyboard env uid"
  shows "outbox (prompt_for_assignee env u w) = outbox w @ [SendMessage ChooseAssignee (Inline kb)]
       \<and> fsm_state (prompt_for_assignee env u w) = fsm_state w
       \<and> fsm_data (prompt_for_assignee env u w) = fsm_data w
       \<and> (fsm_state w = Some TaskDescription \<longrightarrow>
            (\<exists>w'. dispatch env (Message u (Text msg)) w = Handled w'
                  \<and> fsm_state w' = Some TaskAssignee
                  \<and> outbox w' = outbox w @ [SendMessage ChooseAssignee (Inline kb)]))
       \<and> kb \<noteq> [] \<and> hd kb = self_button
       \<and> (\<forall>b \<in> set (tl kb). callback_data b \<noteq> ''assign:self''
                               \<and> callback_data b \<noteq> ''assign:'' @ str_int uid)
       \<and> (select_profile env uid = Raises \<longrightarrow> kb = [self_button])
       \<and> (\<forall>d. select_profile env uid = Returns (True, d) \<longrightarrow> kb = [self_button])
       \<and> (select_profile env uid = Returns (False, None) \<longrightarrow> kb = [self_button])
       \<and> (select_profiles_by_roles env (allowed_roles (assigner_role env uid)) = Raises
            \<longrightarrow> kb = [self_button])"
proof -
  have o: "outbox (prompt_for_assignee env u w) = outbox w @ [SendMessage ChooseAssignee (Inline kb)]"
    and st: "fsm_state (prompt_for_assignee env u w) = fsm_state w"
    and da: "fsm_data (prompt_for_assignee env u w) = fsm_data w"
    by (simp_all add: prompt_for_assignee_def Let_def emit_def request_def kb_def uid_def)
  have d: "fsm_state w = Some TaskDescription \<longrightarrow>
            (\<exists>w'. dispatch env (Message u (Text msg)) w = Handled w'
                  \<and> fsm_state w' = Some TaskAssignee
                  \<and> outbox w' = outbox w @ [SendMessage ChooseAssignee (Inline kb)])"
    by (simp add: dispatch_text_def process_task_description_def prompt_for_assignee_def Let_def
        emit_def request_def put_def group_next_def TaskForm_def kb_def uid_def)
  have h: "kb \<noteq> [] \<and> hd kb = self_button"
    by (simp add: kb_def assignee_keyboard_def self_button_def)
  have n: "\<forall>b \<in> set (tl kb). callback_data b \<noteq> ''assign:self''
                               \<and> callback_data b \<noteq> ''assign:'' @ str_int uid"
    using assignee_buttons_no_self by (simp add: kb_def assignee_keyboard_def)
  have e1: "select_profile env uid = Raises \<longrightarrow> kb = [self_button]"
    by (simp add: kb_def assignee_keyboard_def self_button_def assigner_role_def
        allowed_roles_def fetch_assignees_def)
  have e2: "\<forall>d. select_profile env uid = Returns (True, d) \<longrightarrow> kb = [self_button]"
    by (simp add: kb_def assignee_keyboard_def self_button_def assigner_role_def
        allowed_roles_def fetch_assignees_def)
  have e3: "select_profile env uid = Returns (False, None) \<longrightarrow> kb = [self_button]"
    by (simp add: kb_def assignee_keyboard_def self_button_def assigner_role_def
        allowed_roles_def fetch_assignees_def)
  have e4: "select_profiles_by_roles env (allowed_roles (assigner_role env uid)) = Raises
            \<longrightarrow> kb = [self_button]"
    by (simp add: kb_def assignee_keyboard_def self_button_def fetch_assignees_def)
  show ?thesis
    using o st da d h n e1 e2 e3 e4 by blast
qed


theorem prompt_for_assignee_total_witness:
  "assignee_keyboard (store_with (Some alice_profile) [alice_profile, ivan]) (telegram_id alice)
     = [\<lparr>btn_caption = CapAssignSelf, callback_data = ''assign:self''\<rparr>,
        \<lparr>btn_caption = CapText ''Ivan Petrov'', callback_data = ''assign:9''\<rparr>]
   \<and> ''assign:9'' \<noteq> ''assign:'' @ str_int (telegram_id alice)
   \<and> select_profile failing_store (telegram_id alice) = Raises
   \<and> assignee_keyboard failing_store (telegram_id alice)
       = [\<lparr>btn_caption = CapAssignSelf, callback_data = ''assign:self''\<rparr>]
   \<and> fsm_state (in_dialog TaskDescription Map.empty) = Some TaskDescription
   \<and> (\<exists>w'. dispatch failing_store (Message alice (Text ''-'')) (in_dialog TaskDescription Map.empty)
               = Handled w'
             \<and> fsm_state w' = Some TaskAssignee
             \<and> outbox w' = [SendMessage ChooseAssignee
                   (Inline [\<lparr>btn_caption = CapAssignSelf, callback_data = ''assign:self''\<rparr>])])"
proof -
  let ?env = "store_with (Some alice_profile) [alice_profile, ivan]"
  let ?self = "\<lparr>btn_caption = CapAssignSelf, callback_data = ''assign:self''\<rparr>"
  let ?w = "in_dialog TaskDescription Map.empty"
  have s9: "str_int 9 = ''9''" by code_simp
  have s7: "str_int (telegram_id alice) = ''7''" by code_simp
  have k: "assignee_keyboard ?env (telegram_id alice)
             = [?self, \<lparr>btn_caption = CapText ''Ivan Petrov'', callback_data = ''assign:9''\<rparr>]"
    by (simp add: assignee_keyboard_def fetch_assignees_def assigner_role_def allowed_roles_def
        ROLE_ASSIGNMENT_MAP_def store_with_def empty_store_def data_or_empty_def alice_def
        alice_profile_def ivan_def str_or_def str_opt_int_def s9)
  note th1 = prompt_for_assignee_total [where env = ?env and u = alice and w = ?w and msg = "''-''"]
  have "\<forall>b \<in> set (tl (assignee_keyboard ?env (telegram_id alice))).
          callback_data b \<noteq> ''assign:'' @ str_int (telegram_id alice)"
    using th1 by blast
  then have ne: "''assign:9'' \<noteq> ''assign:'' @ str_int (telegram_id alice)"
    by (simp add: k)
  have r: "select_profile failing_store (telegram_id alice) = Raises"
    by (simp add: failing_store_def empty_store_def)
  note th2 = prompt_for_assignee_total [where env = failing_store and u = alice and w = ?w and msg = "''-''"]
  have k2: "assignee_keyboard failing_store (telegram_id alice) = [?self]"
    using th2 r by blast
  have st: "fsm_state ?w = Some TaskDescription"
    by (simp add: in_dialog_def)
  have "\<exists>w'. dispatch failing_store (Message alice (Text ''-'')) ?w = Handled w'
             \<and> fsm_state w' = Some TaskAssignee
             \<and> outbox w' = outbox ?w @ [SendMessage ChooseAssignee
                   (Inline (assignee_keyboard failing_store (telegram_id alice)))]"
    using th2 st by blast
  then have d: "\<exists>w'. dispatch failing_store (Message alice (Text ''-'')) ?w = Handled w'
             \<and> fsm_state w' = Some TaskAssignee
             \<and> outbox w' = [SendMessage ChooseAssignee (Inline [?self])]"
    by (simp add: k2 in_dialog_def)
  show ?thesis
    by (intro conjI) (fact k ne r k2 st d)+
qed

subsection \<open>The scratch dictionary along a conversation\<close>

text \<open>
  Every handler keeps the scratch dictionary in step with the dialog position, so this
  holds in every world a conversation can reach.
\<close>

lemma fits_emit [simp]: "scratch_fits (emit a w) = scratch_fits w"
  by (simp add: scratch_fits_def emit_def)

lemma fits_request [simp]: "scratch_fits (request c w) = scratch_fits w"
  by (simp add: scratch_fits_def request_def)

lemma fits_finish [simp]: "scratch_fits (finish w)"
  by (simp add: scratch_fits_def finish_def)


lemma fits_prompt [simp]: "scratch_fits (prompt_for_assignee env u w) = scratch_fits w"
  by (simp add: prompt_for_assignee_def Let_def)


















lemma first_word_not_blank: "first_word t \<noteq> [] \<Longrightarrow> \<not> blank t"
proof -
  assume a: "first_word t \<noteq> []"
  have "dropWhile is_space t \<noteq> []"
  proof
    assume "dropWhile is_space t = []"
    then have "first_word t = []" by (simp only: first_word_def takeWhile.simps)
    then show False using a by simp
  qed
  then obtain c r where cr: "dropWhile is_space t = c # r" 
    by (cases "dropWhile is_space t") auto
  then have nc: "\<not> is_space c" using hd_dropWhile [of is_space t] by auto
  have "dropWhile is_space (rev (c # r)) \<noteq> []"
    using nc by (auto simp: dropWhile_eq_Nil_conv)
  then show ?thesis by (simp add: blank_def strip_def cr)
qed

lemma is_command_not_blank: "is_command env cs t \<Longrightarrow> \<not> blank t"
  using first_word_not_blank [of t] by (auto simp: is_command_def split: list.splits)

lemma is_command_unique:
  "is_command env [a] t \<Longrightarrow> is_command env [b] t \<Longrightarrow> a = b"
  by (auto simp: is_command_def Let_def split: list.splits)

lemma is_command_plain:
  "is_command env [''newlead''] ''/newlead'' \<and> is_command env [''newtask''] ''/newtask''
   \<and> is_command env [''cancel''] ''/cancel''"
  by (simp add: is_command_def first_word_def is_space_def lower_def lower_char_def Let_def)










subsection \<open>Cancellation\<close>

text \<open>
  C7, on the code. The handlers of the lead and task steps are registered before the
  cancel handler and take every text at their position. So \<open>/cancel\<close> sent right after
  \<open>/newlead\<close> is stored as the name of the lead and the dialog moves to the phone step;
  \<open>cancel\<close> sent right after \<open>/newtask\<close> is stored as the title of the task and the
  dialog moves to the client step. The scratch dictionary is not cleared.
\<close>

theorem cancel_swallowed_by_dialog_step:
  "dispatch env (Message u (Text ''/cancel''))
     (final (dispatch env (Message u (Text ''/newlead'')) initial_world))
     = Handled \<lparr>fsm_state = Some LeadPhone, fsm_data = [''name'' \<mapsto> Some ''/cancel''],
         outbox = [Reply AskLeadName get_main_menu, Reply AskLeadPhone get_main_menu],
         store_log = []\<rparr>
   \<and> dispatch env (Message u (Text ''cancel''))
     (final (dispatch env (Message u (Text ''/newtask'')) initial_world))
     = Handled \<lparr>fsm_state = Some TaskClient, fsm_data = [''title'' \<mapsto> Some ''cancel''],
         outbox = [Reply AskTaskTitle get_main_menu, Reply AskTaskClient get_main_menu],
         store_log = []\<rparr>"
proof -
  have b: "\<not> blank ''/newlead''" "\<not> blank ''/newtask''"
    using is_command_plain is_command_not_blank by blast+
  have n: "\<not> is_command env [''start''] ''/newlead''" "\<not> is_command env [''help''] ''/newlead''"
    "\<not> is_command env [''start''] ''/newtask''" "\<not> is_command env [''help''] ''/newtask''"
    "\<not> is_command env [''newlead''] ''/newtask''" "\<not> is_command env [''myleads''] ''/newtask''"
    by (simp_all add: is_command_def first_word_def is_space_def lower_def lower_char_def Let_def)
  have s1: "strip ''/cancel'' = ''/cancel''" and s2: "strip ''cancel'' = ''cancel''"
    by code_simp+
  have w1: "final (dispatch env (Message u (Text ''/newlead'')) initial_world)
          = \<lparr>fsm_state = Some LeadName, fsm_data = Map.empty,
              outbox = [Reply AskLeadName get_main_menu], store_log = []\<rparr>"
    using b n is_command_plain [of env]
    by (simp add: dispatch_text_def new_lead_def emit_def set_state_def initial_world_def)
  have w2: "final (dispatch env (Message u (Text ''/newtask'')) initial_world)
          = \<lparr>fsm_state = Some TaskTitle, fsm_data = Map.empty,
              outbox = [Reply AskTaskTitle get_main_menu], store_log = []\<rparr>"
    using b n is_command_plain [of env]
    by (simp add: dispatch_text_def new_task_def emit_def set_state_def initial_world_def)
  show ?thesis
    unfolding w1 w2
    by (simp add: dispatch_text_def process_lead_name_def process_task_title_def emit_def put_def
        group_next_def LeadForm_def TaskForm_def s1 s2)
qed

text \<open>
  What does hold: the cancel handler itself clears the position and the scratch
  dictionary of any active dialog and does nothing without one; a cancel text or command
  reaches it when no dialog is active and at the step that awaits a task result; at
  each of the other eight positions every text goes to the handler of that step.
\<close>

lemma cancel_handler_effect:
  "cancel_handler w =
     (if fsm_state w = None then Handled w
      else Handled (w\<lparr>fsm_state := None, fsm_data := Map.empty,
                      outbox := outbox w @ [Reply Cancelled ReplyKeyboardRemove]\<rparr>))"
  by (simp add: cancel_handler_def finish_def emit_def split: option.splits)

lemma cancel_text_no_command: "lower msg = ''cancel'' \<Longrightarrow> \<not> is_command env cs msg \<and> \<not> blank msg"
proof -
  assume a: "lower msg = ''cancel''"
  then obtain c r where m: "msg = c # r" and c: "lower_char c = CHR ''c''"
    by (cases msg) (auto simp: lower_def)
  have nsp: "\<not> is_space c" and nsl: "c \<noteq> CHR ''/''"
    using c by (auto simp: lower_char_def is_space_def Let_def split: if_splits)
  have fw: "first_word msg = c # takeWhile (\<lambda>c. \<not> is_space c) r"
    using nsp by (simp add: first_word_def m)
  have "first_word msg \<noteq> []" using fw by simp
  then have "\<not> blank msg" by (rule first_word_not_blank)
  moreover have "\<not> is_command env cs msg"
    using nsl by (simp add: is_command_def fw Let_def)
  ultimately show ?thesis by simp
qed

lemma cancel_reaches_handler:
  assumes "fsm_state w = None \<or> fsm_state w = Some AwaitingResult"
    and "lower msg = ''cancel'' \<or> is_command env [''cancel''] msg"
  shows "dispatch env (Message u (Text msg)) w = cancel_handler w"
proof (cases "lower msg = ''cancel''")
  case True
  then show ?thesis
    using assms(1) cancel_text_no_command [OF True]
    by (auto simp: dispatch_text_def Let_def)
next
  case False
  then have c: "is_command env [''cancel''] msg" using assms(2) by simp
  then have "\<not> blank msg" by (rule is_command_not_blank)
  moreover have "\<not> is_command env [''start''] msg" "\<not> is_command env [''help''] msg"
      "\<not> is_command env [''newlead''] msg" "\<not> is_command env [''myleads''] msg"
      "\<not> is_command env [''newtask''] msg" "\<not> is_command env [''mytasks''] msg"
    using c is_command_unique [of env "''cancel''" msg] by auto
  ultimately show ?thesis
    using assms(1) c by (auto simp: dispatch_text_def Let_def)
qed

lemma dialog_steps_take_every_text:
  "(fsm_state w = Some LeadName \<longrightarrow> dispatch env (Message u (Text msg)) w = process_lead_name msg w)
   \<and> (fsm_state w = Some LeadPhone \<longrightarrow> dispatch env (Message u (Text msg)) w = process_lead_phone msg w)
   \<and> (fsm_state w = Some LeadEmail \<longrightarrow> dispatch env (Message u (Text msg)) w = process_lead_email env u msg w)
   \<and> (fsm_state w = Some TaskTitle \<longrightarrow> dispatch env (Message u (Text msg)) w = process_task_title msg w)
   \<and> (fsm_state w = Some TaskClient \<longrightarrow> dispatch env (Message u (Text msg)) w = process_task_client msg w)
   \<and> (fsm_state w = Some TaskDueDate \<longrightarrow> dispatch env (Message u (Text msg)) w = process_task_due_date msg w)
   \<and> (fsm_state w = Some TaskDescription \<longrightarrow>
        dispatch env (Message u (Text msg)) w = process_task_description env u msg w)
   \<and> (fsm_state w = Some TaskAssignee \<longrightarrow>
        dispatch env (Message u (Text msg)) w = process_task_assignee env u msg w)"
  by (simp add: dispatch_text_def)

end
